theory Spec2Isabelle
  imports Main "HOL-Library.Sublist" "HOL-Library.AList"
begin

section \<open>JavaScript values, errors and string primitives\<close>

text \<open>
  The tool arguments of a request arrive as parsed JSON and are only cast (\<open>as string\<close>)
  by the handler, so at run time each argument is an arbitrary JSON value or absent.
  The handler only tests a number for truth and prints it, so a number is given by
  its string form \<open>String(n)\<close>: \<open>JNum ''42''\<close>, \<open>JNum ''1e+21''\<close>, and \<open>JNum ''0''\<close> for
  both zeros. Strings are byte strings.
\<close>

datatype jsval =
    JUndefined
  | JNull
  | JBool bool
  | JNum string
  | JStr string
  | JArr "jsval list"
  | JObj "(string \<times> jsval) list"

datatype error_kind = Error | TypeError | URIError | SyntaxError

datatype js_error = JsError (kind: error_kind) (message: string)

text \<open>Truthiness, as tested by \<open>if (x)\<close>, \<open>x && y\<close> and \<open>x || y\<close>.\<close>

fun truthy :: "jsval \<Rightarrow> bool" where
  "truthy JUndefined = False"
| "truthy JNull = False"
| "truthy (JBool b) = b"
| "truthy (JNum n) = (n \<noteq> ''0'')"
| "truthy (JStr s) = (s \<noteq> [])"
| "truthy (JArr xs) = True"
| "truthy (JObj kvs) = True"

text \<open>Decimal notation of a status code, as a template literal prints it.\<close>

fun string_of_nat :: "nat \<Rightarrow> string" where
  "string_of_nat n =
     (if n < 10 then [char_of (48 + n)]
      else string_of_nat (n div 10) @ [char_of (48 + n mod 10)])"

declare string_of_nat.simps [simp del]

fun join :: "string \<Rightarrow> string list \<Rightarrow> string" where
  "join sep [] = []"
| "join sep [x] = x"
| "join sep (x # y # ys) = x @ sep @ join sep (y # ys)"

text \<open>The first error of a list of outcomes, or all their values.\<close>

fun collect :: "(js_error + 'a) list \<Rightarrow> js_error + 'a list" where
  "collect [] = Inr []"
| "collect (Inl e # rs) = Inl e"
| "collect (Inr v # rs) = (case collect rs of Inl e \<Rightarrow> Inl e | Inr vs \<Rightarrow> Inr (v # vs))"

definition not_primitive :: js_error where
  "not_primitive = JsError TypeError ''Cannot convert object to primitive value''"

text \<open>
  The string conversion a template literal \<open>`${x}`\<close> applies. An array prints its
  elements separated by commas, with \<open>null\<close> and \<open>undefined\<close> elements printed empty.
  An object parsed from JSON prints through \<open>Object.prototype.toString\<close>, unless it has
  a property \<open>toString\<close> of its own: that value is not a function, the inherited
  \<open>valueOf\<close> gives back the object, and the conversion raises a type error.
\<close>

fun ToString :: "jsval \<Rightarrow> js_error + string" where
  "ToString JUndefined = Inr ''undefined''"
| "ToString JNull = Inr ''null''"
| "ToString (JBool b) = Inr (if b then ''true'' else ''false'')"
| "ToString (JNum n) = Inr n"
| "ToString (JStr s) = Inr s"
| "ToString (JArr xs) =
     (case collect (map (\<lambda>x. if x = JUndefined \<or> x = JNull then Inr [] else ToString x) xs) of
        Inl e \<Rightarrow> Inl e
      | Inr ss \<Rightarrow> Inr (join '','' ss))"
| "ToString (JObj kvs) =
     (if ''toString'' \<in> set (map fst kvs) then Inl not_primitive else Inr ''[object Object]'')"

text \<open>\<open>String.prototype.includes\<close>: does the pattern occur in the string.\<close>

fun str_includes :: "string \<Rightarrow> string \<Rightarrow> bool" where
  "str_includes [] p = (p = [])"
| "str_includes (c # cs) p = (prefix p (c # cs) \<or> str_includes cs p)"

text \<open>
  \<open>String.prototype.indexOf\<close>: the index of the first occurrence of the pattern,
  \<open>-1\<close> when there is none.
\<close>

fun indexOf :: "string \<Rightarrow> string \<Rightarrow> int" where
  "indexOf [] p = (if p = [] then 0 else - 1)"
| "indexOf (c # cs) p =
     (if prefix p (c # cs) then 0
      else (let r = indexOf cs p in if r < 0 then - 1 else r + 1))"

text \<open>\<open>s.substring(a, b)\<close> and \<open>s.substring(a)\<close> for \<open>0 \<le> a \<le> b\<close>.\<close>

definition substring :: "string \<Rightarrow> int \<Rightarrow> int \<Rightarrow> string" where
  "substring s a b = take (nat b - nat a) (drop (nat a) s)"

definition substring_from :: "string \<Rightarrow> int \<Rightarrow> string" where
  "substring_from s a = drop (nat a) s"

text \<open>
  \<open>Array.prototype.indexOf\<close> with a string argument: strict equality, so only an
  element that is the same string matches.
\<close>

fun arr_indexOf :: "jsval list \<Rightarrow> jsval \<Rightarrow> int" where
  "arr_indexOf [] v = - 1"
| "arr_indexOf (x # xs) v =
     (if x = v then 0 else (let r = arr_indexOf xs v in if r < 0 then - 1 else r + 1))"

section \<open>The graph-scoping rewrite of the \<open>sparqlQuery\<close> tool\<close>

text \<open>
  Lines 459 to 469 of \<open>src/index.ts\<close>, the computation of \<open>modifiedQuery\<close> from the
  arguments \<open>query\<close> and \<open>graph\<close>:
  \<^verbatim>\<open>
    let modifiedQuery = sparqlQuery;
    if (graph && !sparqlQuery.includes("FROM <") && !sparqlQuery.includes("GRAPH <")) {
        const insertPoint = sparqlQuery.indexOf("WHERE");
        if (insertPoint > 0) {
            modifiedQuery = sparqlQuery.substring(0, insertPoint) +
                `FROM <${graph}> ` + sparqlQuery.substring(insertPoint);
        }
    }
  \<close>
  The method calls are made on whatever value \<open>query\<close> is. On \<open>undefined\<close>, \<open>null\<close>,
  a boolean, a number or an object, \<open>sparqlQuery.includes\<close> raises a type error; an array
  has \<open>includes\<close> and \<open>indexOf\<close> but no \<open>substring\<close>. The operands of the
  concatenation are evaluated from left to right, so the conversion of \<open>graph\<close> comes
  after the first \<open>substring\<close>. \<open>Inl\<close> is the raised error.
\<close>

definition not_a_function :: "string \<Rightarrow> js_error" where
  "not_a_function m = JsError TypeError (''sparqlQuery.'' @ m @ '' is not a function'')"

definition cannot_read :: "string \<Rightarrow> string \<Rightarrow> js_error" where
  "cannot_read v m =
     JsError TypeError (''Cannot read properties of '' @ v @ '' (reading '' @ [CHR 0x27] @ m @ [CHR 0x27] @ '')'')"

definition modifiedQuery :: "jsval \<Rightarrow> jsval \<Rightarrow> js_error + jsval" where
  "modifiedQuery sparqlQuery graph =
     (if \<not> truthy graph then Inr sparqlQuery
      else case sparqlQuery of
        JStr q \<Rightarrow>
          if str_includes q ''FROM <'' then Inr sparqlQuery
          else if str_includes q ''GRAPH <'' then Inr sparqlQuery
          else (let insertPoint = indexOf q ''WHERE'' in
                if insertPoint > 0
                then (case ToString graph of
                        Inl e \<Rightarrow> Inl e
                      | Inr g \<Rightarrow>
                          Inr (JStr (substring q 0 insertPoint @
                                     (''FROM <'' @ g @ ''> '') @
                                     substring_from q insertPoint)))
                else Inr sparqlQuery)
      | JArr xs \<Rightarrow>
          if JStr ''FROM <'' \<in> set xs then Inr sparqlQuery
          else if JStr ''GRAPH <'' \<in> set xs then Inr sparqlQuery
          else (let insertPoint = arr_indexOf xs (JStr ''WHERE'') in
                if insertPoint > 0 then Inl (not_a_function ''substring'')
                else Inr sparqlQuery)
      | JUndefined \<Rightarrow> Inl (cannot_read ''undefined'' ''includes'')
      | JNull \<Rightarrow> Inl (cannot_read ''null'' ''includes'')
      | _ \<Rightarrow> Inl (not_a_function ''includes''))"

section \<open>Percent-encoding of URI components\<close>

text \<open>
  \<open>encodeURIComponent\<close> and \<open>decodeURIComponent\<close> on byte strings. Encoding escapes
  every byte outside the unreserved set as \<open>%XX\<close> with upper-case digits. Decoding raises
  a URI error at a \<open>%\<close> that is not followed by two hexadecimal digits, and at escaped
  bytes of \<open>0x80\<close> and above that are not a well-formed UTF-8 sequence of escapes.
  A byte string stands for a well-formed JavaScript string, on which encoding does not
  raise.
\<close>

definition hex_digit :: "nat \<Rightarrow> char" where
  "hex_digit n = ''0123456789ABCDEF'' ! n"

definition hexval :: "char \<Rightarrow> nat option" where
  "hexval c =
     (let n = (of_char c :: nat) in
      if 48 \<le> n \<and> n \<le> 57 then Some (n - 48)
      else if 65 \<le> n \<and> n \<le> 70 then Some (n - 55)
      else if 97 \<le> n \<and> n \<le> 102 then Some (n - 87)
      else None)"

definition uri_unreserved :: "char \<Rightarrow> bool" where
  "uri_unreserved c =
     (let n = (of_char c :: nat) in
      (65 \<le> n \<and> n \<le> 90) \<or> (97 \<le> n \<and> n \<le> 122) \<or> (48 \<le> n \<and> n \<le> 57) \<or>
      c \<in> set (''-_.!~*()'' @ [CHR 0x27]))"

definition encodeURIComponent :: "string \<Rightarrow> string" where
  "encodeURIComponent s =
     concat (map (\<lambda>c. if uri_unreserved c then [c]
                        else [CHR ''%'', hex_digit (of_char c div 16), hex_digit (of_char c mod 16)]) s)"

datatype uri_unit = Lit char | Esc nat

fun unescape :: "string \<Rightarrow> uri_unit list option" where
  "unescape [] = Some []"
| "unescape (c # cs) =
     (if c = CHR ''%'' then
        (case cs of
           h1 # h2 # rest \<Rightarrow>
             (case hexval h1 of
                None \<Rightarrow> None
              | Some a \<Rightarrow>
                  (case hexval h2 of
                     None \<Rightarrow> None
                   | Some b \<Rightarrow> map_option ((#) (Esc (16 * a + b))) (unescape rest)))
         | _ \<Rightarrow> None)
      else map_option ((#) (Lit c)) (unescape cs))"

definition utf8_cont :: "nat \<Rightarrow> bool" where
  "utf8_cont b = (128 \<le> b \<and> b \<le> 191)"

definition utf8_second3 :: "nat \<Rightarrow> nat \<Rightarrow> bool" where
  "utf8_second3 b b1 =
     (if b = 224 then 160 \<le> b1 \<and> b1 \<le> 191
      else if b = 237 then 128 \<le> b1 \<and> b1 \<le> 159
      else utf8_cont b1)"

definition utf8_second4 :: "nat \<Rightarrow> nat \<Rightarrow> bool" where
  "utf8_second4 b b1 =
     (if b = 240 then 144 \<le> b1 \<and> b1 \<le> 191
      else if b = 244 then 128 \<le> b1 \<and> b1 \<le> 143
      else utf8_cont b1)"

fun utf8_units :: "uri_unit list \<Rightarrow> string option" where
  "utf8_units [] = Some []"
| "utf8_units (Lit c # us) = map_option ((#) c) (utf8_units us)"
| "utf8_units (Esc b # us) =
     (if b < 128 then map_option ((#) (char_of b)) (utf8_units us)
      else if 194 \<le> b \<and> b \<le> 223 then
        (case us of
           Esc b1 # us1 \<Rightarrow>
             if utf8_cont b1
             then map_option ((@) [char_of b, char_of b1]) (utf8_units us1)
             else None
         | _ \<Rightarrow> None)
      else if 224 \<le> b \<and> b \<le> 239 then
        (case us of
           Esc b1 # Esc b2 # us2 \<Rightarrow>
             if utf8_second3 b b1 \<and> utf8_cont b2
             then map_option ((@) [char_of b, char_of b1, char_of b2]) (utf8_units us2)
             else None
         | _ \<Rightarrow> None)
      else if 240 \<le> b \<and> b \<le> 244 then
        (case us of
           Esc b1 # Esc b2 # Esc b3 # us3 \<Rightarrow>
             if utf8_second4 b b1 \<and> utf8_cont b2 \<and> utf8_cont b3
             then map_option ((@) [char_of b, char_of b1, char_of b2, char_of b3]) (utf8_units us3)
             else None
         | _ \<Rightarrow> None)
      else None)"

definition decodeURIComponent :: "string \<Rightarrow> js_error + string" where
  "decodeURIComponent s =
     (case unescape s of
        None \<Rightarrow> Inl (JsError URIError ''URI malformed'')
      | Some us \<Rightarrow>
          (case utf8_units us of
             None \<Rightarrow> Inl (JsError URIError ''URI malformed'')
           | Some r \<Rightarrow> Inr r))"

text \<open>\<open>s.split(sep)\<close> for a one-character separator.\<close>

fun str_split :: "char \<Rightarrow> string \<Rightarrow> string list" where
  "str_split sep [] = [[]]"
| "str_split sep (c # cs) =
     (if c = sep then [] # str_split sep cs
      else (case str_split sep cs of
              [] \<Rightarrow> [[c]]
            | w # ws \<Rightarrow> (c # w) # ws))"

section \<open>Data model\<close>

text \<open>The interfaces \<open>SparqlBinding\<close> and \<open>SparqlResults\<close>, lines 18 to 35.\<close>

record rdf_term =
  term_type :: string
  term_value :: string
  term_datatype :: "string option"
  term_lang :: "string option"

type_synonym SparqlBinding = "(string \<times> rdf_term) list"

record sparql_head =
  vars :: "string list"
  link :: "string list option"

record sparql_rows =
  bindings :: "SparqlBinding list"

record SparqlResults =
  head :: sparql_head
  results :: sparql_rows

text \<open>
  The objects given to \<open>JSON.stringify\<close>: a query result as it is, the \<open>statistics\<close>
  object of the statistics view (a property whose value is \<open>undefined\<close> is \<open>None\<close>),
  and the object of the graph view with its properties \<open>sampleData\<close>, \<open>metadata\<close>
  (\<open>undefined\<close> when the metadata query has no row) and \<open>ontologyClasses\<close>.
\<close>

datatype payload =
    ResultJson SparqlResults
  | StatisticsJson "(string \<times> rdf_term option) list"
  | GraphJson (sampleData: "SparqlBinding list") (metadata: "SparqlBinding option")
      (ontologyClasses: "SparqlBinding list")

text \<open>The outbound call and what \<open>fetch\<close> gives back.\<close>

record request =
  url :: string
  http_method :: string
  headers :: "(string \<times> string) list"
  body :: jsval

record response =
  ok :: bool
  status :: nat
  statusText :: string
  body_text :: "js_error + string"
  body_json :: "js_error + SparqlResults"

datatype fetch_result = Rejected js_error | Resolved response

text \<open>
  The state a handler runs in: the requests sent so far, in order, and the state of the
  remote endpoint, which \<open>fetch\<close> may change. Each handler awaits its calls one after
  the other, so it is a function from the state before to its outcome and the state
  after; an outcome \<open>Inl e\<close> is the error \<open>e\<close> thrown out of the handler. What the
  handlers write to the console is left out.
\<close>

record 'w state =
  requests :: "request list"
  remote :: 'w

text \<open>
  The configuration read at startup (lines 51 to 57) and the library functions the
  handlers call: \<open>fetch\<close>, \<open>Buffer.from(s).toString('base64')\<close>,
  \<open>JSON.stringify(x, null, 2)\<close>, \<open>new URL(uri).pathname\<close> (which raises on an
  invalid URL) and \<open>new URL(rel, resourceBaseUrl).href\<close>.
\<close>

record 'w env =
  endpoint :: string
  repository :: string
  username :: string
  password :: string
  cfAccessClientId :: string
  cfAccessClientSecret :: string
  fetch :: "'w \<Rightarrow> request \<Rightarrow> fetch_result \<times> 'w"
  base64 :: "string \<Rightarrow> string"
  JSON_stringify :: "payload \<Rightarrow> string"
  URL_pathname :: "string \<Rightarrow> js_error + string"
  URL_href :: "string \<Rightarrow> string"

text \<open>Lines 64 to 73.\<close>

definition hasAuth :: "'w env \<Rightarrow> bool" where
  "hasAuth env = (username env \<noteq> [] \<and> password env \<noteq> [])"

definition hasCfAccess :: "'w env \<Rightarrow> bool" where
  "hasCfAccess env = (cfAccessClientId env \<noteq> [] \<and> cfAccessClientSecret env \<noteq> [])"

text \<open>Lines 80 to 85.\<close>

definition REPOSITORY_PATH :: string where "REPOSITORY_PATH = ''repository''"
definition GRAPH_PATH :: string where "GRAPH_PATH = ''graph''"
definition CLASS_LIST_PATH :: string where "CLASS_LIST_PATH = ''classes''"
definition PREDICATES_PATH :: string where "PREDICATES_PATH = ''predicates''"
definition SAMPLE_DATA_PATH :: string where "SAMPLE_DATA_PATH = ''sample''"
definition STATS_PATH :: string where "STATS_PATH = ''stats''"

section \<open>The query executor\<close>

text \<open>
  The headers of a query submission, built the same way at lines 93 to 108 and at
  lines 477 to 492.
\<close>

definition sparql_headers :: "'w env \<Rightarrow> string \<Rightarrow> (string \<times> string) list" where
  "sparql_headers env accept =
     [(''Content-Type'', ''application/sparql-query''), (''Accept'', accept)] @
     (if hasAuth env
      then [(''Authorization'', ''Basic '' @ base64 env (username env @ '':'' @ password env))]
      else []) @
     (if hasCfAccess env
      then [(''CF-Access-Client-Id'', cfAccessClientId env),
            (''CF-Access-Client-Secret'', cfAccessClientSecret env)]
      else [])"

definition sparql_request :: "'w env \<Rightarrow> jsval \<Rightarrow> string \<Rightarrow> request" where
  "sparql_request env query accept =
     \<lparr>url = endpoint env @ ''/repositories/'' @ repository env,
      http_method = ''POST'',
      headers = sparql_headers env accept,
      body = query\<rparr>"

text \<open>\<open>await fetch(...)\<close>: the request is sent and recorded, the endpoint moves on.\<close>

definition do_fetch :: "'w env \<Rightarrow> 'w state \<Rightarrow> request \<Rightarrow> fetch_result \<times> 'w state" where
  "do_fetch env st req =
     (case fetch env (remote st) req of
        (r, w) \<Rightarrow> (r, \<lparr>requests = requests st @ [req], remote = w\<rparr>))"

definition query_failed :: "response \<Rightarrow> js_error" where
  "query_failed r =
     JsError Error (''GraphDB query failed: '' @ string_of_nat (status r) @ '' '' @ statusText r)"

definition default_accept :: string where
  "default_accept = ''application/sparql-results+json''"

text \<open>
  \<open>executeSparqlQuery\<close>, lines 88 to 125. The \<open>catch\<close> logs and rethrows, so every
  failure comes out as it was raised. The query is typed \<open>string\<close> in the source; the
  tool handler passes it whatever the \<open>query\<close> argument is.
\<close>

definition executeSparqlQuery ::
  "'w env \<Rightarrow> 'w state \<Rightarrow> jsval \<Rightarrow> string \<Rightarrow> (js_error + SparqlResults) \<times> 'w state" where
  "executeSparqlQuery env st query accept =
     (case do_fetch env st (sparql_request env query accept) of
        (Rejected e, st1) \<Rightarrow> (Inl e, st1)
      | (Resolved r, st1) \<Rightarrow>
          if \<not> ok r then (Inl (query_failed r), st1)
          else (body_json r, st1))"

section \<open>The query texts\<close>

text \<open>
  The template literals of \<open>src/index.ts\<close>, each with the line breaks and the
  indentation it has there.
\<close>

text \<open>Lines 134 to 140.\<close>

definition listResources_query :: string where
  "listResources_query =
     ''\<newline>'' @
     ''    SELECT DISTINCT ?graph\<newline>'' @
     ''    WHERE {\<newline>'' @
     ''      GRAPH ?graph { ?s ?p ?o }\<newline>'' @
     ''    }\<newline>'' @
     ''    ORDER BY ?graph\<newline>'' @
     ''  ''"

text \<open>Lines 211 to 228.\<close>

definition classes_query :: string where
  "classes_query =
     ''\<newline>'' @
     ''        PREFIX rdf: <http://www.w3.org/1999/02/22-rdf-syntax-ns#>\<newline>'' @
     ''        PREFIX rdfs: <http://www.w3.org/2000/01/rdf-schema#>\<newline>'' @
     ''        PREFIX owl: <http://www.w3.org/2002/07/owl#>\<newline>'' @
     ''        SELECT DISTINCT ?class ?label ?comment (COUNT(?instance) as ?count)\<newline>'' @
     ''        WHERE {\<newline>'' @
     ''          {\<newline>'' @
     ''            ?class a rdfs:Class .\<newline>'' @
     ''          } UNION {\<newline>'' @
     ''            ?class a owl:Class .\<newline>'' @
     ''          }\<newline>'' @
     ''          OPTIONAL { ?instance a ?class }\<newline>'' @
     ''          OPTIONAL { ?class rdfs:label ?label }\<newline>'' @
     ''          OPTIONAL { ?class rdfs:comment ?comment }\<newline>'' @
     ''        }\<newline>'' @
     ''        GROUP BY ?class ?label ?comment\<newline>'' @
     ''        ORDER BY DESC(?count)\<newline>'' @
     ''      ''"

text \<open>Lines 242 to 254.\<close>

definition predicates_query :: string where
  "predicates_query =
     ''\<newline>'' @
     ''        PREFIX rdf: <http://www.w3.org/1999/02/22-rdf-syntax-ns#>\<newline>'' @
     ''        PREFIX rdfs: <http://www.w3.org/2000/01/rdf-schema#>\<newline>'' @
     ''        SELECT DISTINCT ?predicate ?label ?comment (COUNT('' @ ''*) as ?usage)\<newline>'' @
     ''        WHERE {\<newline>'' @
     ''          ?s ?predicate ?o .\<newline>'' @
     ''          OPTIONAL { ?predicate rdfs:label ?label }\<newline>'' @
     ''          OPTIONAL { ?predicate rdfs:comment ?comment }\<newline>'' @
     ''        }\<newline>'' @
     ''        GROUP BY ?predicate ?label ?comment\<newline>'' @
     ''        ORDER BY DESC(?usage)\<newline>'' @
     ''        LIMIT 100\<newline>'' @
     ''      ''"

text \<open>Lines 268 to 278.\<close>

definition stats_query :: string where
  "stats_query =
     ''\<newline>'' @
     ''        PREFIX rdf: <http://www.w3.org/1999/02/22-rdf-syntax-ns#>\<newline>'' @
     ''        SELECT \<newline>'' @
     ''          (COUNT(DISTINCT ?s) as ?subjects) \<newline>'' @
     ''          (COUNT(DISTINCT ?p) as ?predicates) \<newline>'' @
     ''          (COUNT(DISTINCT ?o) as ?objects)\<newline>'' @
     ''          (COUNT('' @ ''*) as ?triples)\<newline>'' @
     ''        WHERE {\<newline>'' @
     ''          ?s ?p ?o .\<newline>'' @
     ''        }\<newline>'' @
     ''      ''"

text \<open>Lines 283 to 288.\<close>

definition graphQuery :: string where
  "graphQuery =
     ''\<newline>'' @
     ''        SELECT (COUNT(DISTINCT ?g) as ?graphs)\<newline>'' @
     ''        WHERE {\<newline>'' @
     ''          GRAPH ?g { ?s ?p ?o }\<newline>'' @
     ''        }\<newline>'' @
     ''      ''"

text \<open>Lines 311 to 317.\<close>

definition sample_query :: string where
  "sample_query =
     ''\<newline>'' @
     ''        SELECT ?subject ?predicate ?object\<newline>'' @
     ''        WHERE {\<newline>'' @
     ''          ?subject ?predicate ?object\<newline>'' @
     ''        }\<newline>'' @
     ''        LIMIT 50\<newline>'' @
     ''      ''"

text \<open>Lines 331 to 338.\<close>

definition graph_sample_query :: "string \<Rightarrow> string" where
  "graph_sample_query graphUri =
     ''\<newline>'' @
     ''        SELECT ?subject ?predicate ?object\<newline>'' @
     ''        FROM <'' @ graphUri @ ''>\<newline>'' @
     ''        WHERE {\<newline>'' @
     ''          ?subject ?predicate ?object\<newline>'' @
     ''        }\<newline>'' @
     ''        LIMIT 100\<newline>'' @
     ''      ''"

text \<open>Lines 343 to 350.\<close>

definition metadataQuery :: "string \<Rightarrow> string" where
  "metadataQuery graphUri =
     ''\<newline>'' @
     ''        PREFIX rdf: <http://www.w3.org/1999/02/22-rdf-syntax-ns#>\<newline>'' @
     ''        SELECT (COUNT('' @ ''*) as ?triples) (COUNT(DISTINCT ?s) as ?subjects) (COUNT(DISTINCT ?p) as ?predicates)\<newline>'' @
     ''        FROM <'' @ graphUri @ ''>\<newline>'' @
     ''        WHERE {\<newline>'' @
     ''          ?s ?p ?o .\<newline>'' @
     ''        }\<newline>'' @
     ''      ''"

text \<open>Lines 355 to 369.\<close>

definition ontologyQuery :: "string \<Rightarrow> string" where
  "ontologyQuery graphUri =
     ''\<newline>'' @
     ''        PREFIX rdf: <http://www.w3.org/1999/02/22-rdf-syntax-ns#>\<newline>'' @
     ''        PREFIX rdfs: <http://www.w3.org/2000/01/rdf-schema#>\<newline>'' @
     ''        PREFIX owl: <http://www.w3.org/2002/07/owl#>\<newline>'' @
     ''        SELECT DISTINCT ?class\<newline>'' @
     ''        FROM <'' @ graphUri @ ''>\<newline>'' @
     ''        WHERE {\<newline>'' @
     ''          {\<newline>'' @
     ''            ?class a rdfs:Class .\<newline>'' @
     ''          } UNION {\<newline>'' @
     ''            ?class a owl:Class .\<newline>'' @
     ''          }\<newline>'' @
     ''        }\<newline>'' @
     ''        LIMIT 20\<newline>'' @
     ''      ''"

text \<open>Lines 525 to 531.\<close>

definition listGraphs_query :: string where
  "listGraphs_query =
     ''\<newline>'' @
     ''      SELECT DISTINCT ?graph\<newline>'' @
     ''      WHERE {\<newline>'' @
     ''        GRAPH ?graph { ?s ?p ?o }\<newline>'' @
     ''      }\<newline>'' @
     ''      ORDER BY ?graph\<newline>'' @
     ''    ''"

section \<open>Listing resources\<close>

record resource =
  uri :: string
  mimeType :: string
  name :: string

text \<open>
  \<open>result.results.bindings.map((binding) => binding.graph.value)\<close>, line 144: a binding
  with no \<open>graph\<close> variable makes \<open>binding.graph\<close> undefined and the read of \<open>value\<close>
  raises.
\<close>

fun graph_values :: "SparqlBinding list \<Rightarrow> js_error + string list" where
  "graph_values [] = Inr []"
| "graph_values (binding # rest) =
     (case map_of binding ''graph'' of
        None \<Rightarrow> Inl (cannot_read ''undefined'' ''value'')
      | Some t \<Rightarrow>
          (case graph_values rest of
             Inl e \<Rightarrow> Inl e
           | Inr vs \<Rightarrow> Inr (term_value t # vs)))"

definition quoted :: "string \<Rightarrow> string" where
  "quoted s = [CHR 0x27] @ s @ [CHR 0x27]"

definition view_uri :: "'w env \<Rightarrow> string \<Rightarrow> string" where
  "view_uri env path = URL_href env (REPOSITORY_PATH @ ''/'' @ repository env @ ''/'' @ path)"

text \<open>Lines 170 to 174, the descriptor of one graph.\<close>

definition graph_resource :: "'w env \<Rightarrow> string \<Rightarrow> resource" where
  "graph_resource env graph =
     \<lparr>uri = view_uri env (GRAPH_PATH @ ''/'' @ encodeURIComponent graph),
      mimeType = ''application/json'',
      name = ''Graph '' @ quoted graph\<rparr>"

text \<open>
  The handler of \<open>ListResourcesRequestSchema\<close>, lines 128 to 181. Everything after the
  repository check is inside the \<open>try\<close>, whose \<open>catch\<close> returns the empty listing.
\<close>

definition ListResources :: "'w env \<Rightarrow> 'w state \<Rightarrow> (js_error + resource list) \<times> 'w state" where
  "ListResources env st =
     (if repository env = [] then (Inr [], st)
      else
        (case executeSparqlQuery env st (JStr listResources_query) default_accept of
           (Inl e, st1) \<Rightarrow> (Inr [], st1)
         | (Inr result, st1) \<Rightarrow>
             (case graph_values (bindings (results result)) of
                Inl e \<Rightarrow> (Inr [], st1)
              | Inr graphs \<Rightarrow>
                  (Inr ([\<lparr>uri = view_uri env CLASS_LIST_PATH,
                          mimeType = ''application/json'',
                          name = ''Repository '' @ quoted (repository env) @ '' class list''\<rparr>,
                         \<lparr>uri = view_uri env PREDICATES_PATH,
                          mimeType = ''application/json'',
                          name = ''Repository '' @ quoted (repository env) @ '' predicates''\<rparr>,
                         \<lparr>uri = view_uri env STATS_PATH,
                          mimeType = ''application/json'',
                          name = ''Repository '' @ quoted (repository env) @ '' statistics''\<rparr>,
                         \<lparr>uri = view_uri env SAMPLE_DATA_PATH,
                          mimeType = ''application/json'',
                          name = ''Repository '' @ quoted (repository env) @ '' sample data''\<rparr>]
                        @ map (graph_resource env) graphs), st1))))"

section \<open>Reading a resource\<close>

text \<open>The variables \<open>repoName\<close>, \<open>graphUri\<close> and \<open>resourceType\<close> of lines 189 to 191.\<close>

record address =
  repoName :: string
  graphUri :: string
  resourceType :: string

definition no_address :: address where
  "no_address = \<lparr>repoName = [], graphUri = [], resourceType = []\<rparr>"

text \<open>
  The loop of lines 194 to 202 over \<open>pathComponents\<close>, from index \<open>i\<close> on: the argument
  is the list of components from \<open>i\<close>, so \<open>i + 1 < pathComponents.length\<close> says the rest is
  not empty and \<open>pathComponents[i + 1]\<close> is its first element. The index advances by one
  whatever the branch, so a marker's argument is itself scanned next.
\<close>

fun scanPath :: "string list \<Rightarrow> address \<Rightarrow> js_error + address" where
  "scanPath [] a = Inr a"
| "scanPath (c # rest) a =
     (if c = REPOSITORY_PATH \<and> rest \<noteq> [] then scanPath rest (a\<lparr>repoName := hd rest\<rparr>)
      else if c = GRAPH_PATH \<and> rest \<noteq> [] then
        (case decodeURIComponent (hd rest) of
           Inl e \<Rightarrow> Inl e
         | Inr g \<Rightarrow> scanPath rest (a\<lparr>graphUri := g\<rparr>))
      else if c \<in> set [CLASS_LIST_PATH, PREDICATES_PATH, SAMPLE_DATA_PATH, STATS_PATH]
      then scanPath rest (a\<lparr>resourceType := c\<rparr>)
      else scanPath rest a)"

record resource_contents =
  contents_uri :: string
  contents_mimeType :: string
  contents_text :: string

text \<open>The value each view returns: \<open>{ contents: [{ uri, mimeType, text }] }\<close>.\<close>

definition json_contents :: "'w env \<Rightarrow> string \<Rightarrow> payload \<Rightarrow> resource_contents list" where
  "json_contents env u p =
     [\<lparr>contents_uri = u, contents_mimeType = ''application/json'',
       contents_text = JSON_stringify env p\<rparr>]"

text \<open>A view of one query: lines 230 to 239, 256 to 265 and 319 to 328.\<close>

definition single_query_view ::
  "'w env \<Rightarrow> 'w state \<Rightarrow> string \<Rightarrow> string \<Rightarrow> (js_error + resource_contents list) \<times> 'w state" where
  "single_query_view env st u query =
     (case executeSparqlQuery env st (JStr query) default_accept of
        (Inl e, st1) \<Rightarrow> (Inl e, st1)
      | (Inr result, st1) \<Rightarrow> (Inr (json_contents env u (ResultJson result)), st1))"

text \<open>
  \<open>{ ...result.results.bindings[0], graphs: graphResult.results.bindings[0].graphs }\<close>,
  lines 294 to 297. Spreading \<open>undefined\<close> (no first row) adds nothing; the \<open>graphs\<close>
  property replaces a spread property of that name in its place, or comes last.
\<close>

definition spread_binding :: "SparqlBinding list \<Rightarrow> (string \<times> rdf_term option) list" where
  "spread_binding bs = (case bs of [] \<Rightarrow> [] | b # _ \<Rightarrow> map (\<lambda>(k, t). (k, Some t)) b)"

definition statistics ::
  "SparqlBinding list \<Rightarrow> SparqlBinding \<Rightarrow> (string \<times> rdf_term option) list" where
  "statistics bs graphBinding =
     AList.update ''graphs'' (map_of graphBinding ''graphs'') (spread_binding bs)"

text \<open>The statistics view, lines 266 to 308.\<close>

definition statsView ::
  "'w env \<Rightarrow> 'w state \<Rightarrow> string \<Rightarrow> (js_error + resource_contents list) \<times> 'w state" where
  "statsView env st u =
     (case executeSparqlQuery env st (JStr stats_query) default_accept of
        (Inl e, st1) \<Rightarrow> (Inl e, st1)
      | (Inr result, st1) \<Rightarrow>
          (case executeSparqlQuery env st1 (JStr graphQuery) default_accept of
             (Inl e, st2) \<Rightarrow> (Inl e, st2)
           | (Inr graphResult, st2) \<Rightarrow>
               (case bindings (results graphResult) of
                  [] \<Rightarrow> (Inl (cannot_read ''undefined'' ''graphs''), st2)
                | graphBinding # _ \<Rightarrow>
                    (Inr (json_contents env u
                            (StatisticsJson (statistics (bindings (results result)) graphBinding))),
                     st2))))"

text \<open>
  The graph view, lines 329 to 393. The third query has a \<open>try\<close> of its own (lines 371
  to 376) that replaces a failure by a result with no bindings.
\<close>

definition graphView ::
  "'w env \<Rightarrow> 'w state \<Rightarrow> string \<Rightarrow> string \<Rightarrow> (js_error + resource_contents list) \<times> 'w state" where
  "graphView env st u g =
     (case executeSparqlQuery env st (JStr (graph_sample_query g)) default_accept of
        (Inl e, st1) \<Rightarrow> (Inl e, st1)
      | (Inr result, st1) \<Rightarrow>
          (case executeSparqlQuery env st1 (JStr (metadataQuery g)) default_accept of
             (Inl e, st2) \<Rightarrow> (Inl e, st2)
           | (Inr metadataResult, st2) \<Rightarrow>
               (case executeSparqlQuery env st2 (JStr (ontologyQuery g)) default_accept of
                  (r, st3) \<Rightarrow>
                    (let ontologyBindings =
                           (case r of Inl err \<Rightarrow> [] | Inr ontologyResult \<Rightarrow> bindings (results ontologyResult))
                     in (Inr (json_contents env u
                                (GraphJson (bindings (results result))
                                           (case bindings (results metadataResult) of
                                              [] \<Rightarrow> None | m # _ \<Rightarrow> Some m)
                                           ontologyBindings)),
                         st3)))))"

text \<open>
  The handler of \<open>ReadResourceRequestSchema\<close>, lines 184 to 401. The URL is parsed and
  the path scanned before the \<open>try\<close>; the \<open>catch\<close> of the \<open>try\<close> logs and rethrows.
\<close>

definition ReadResource ::
  "'w env \<Rightarrow> 'w state \<Rightarrow> string \<Rightarrow> (js_error + resource_contents list) \<times> 'w state" where
  "ReadResource env st u =
     (case URL_pathname env u of
        Inl e \<Rightarrow> (Inl e, st)
      | Inr pathname \<Rightarrow>
          (case scanPath (str_split CHR ''/'' pathname) no_address of
             Inl e \<Rightarrow> (Inl e, st)
           | Inr a \<Rightarrow>
               if repoName a = []
               then (Inl (JsError Error ''Invalid resource URI: missing repository name''), st)
               else if resourceType a = CLASS_LIST_PATH then single_query_view env st u classes_query
               else if resourceType a = PREDICATES_PATH then single_query_view env st u predicates_query
               else if resourceType a = STATS_PATH then statsView env st u
               else if resourceType a = SAMPLE_DATA_PATH then single_query_view env st u sample_query
               else if graphUri a \<noteq> [] then graphView env st u (graphUri a)
               else (Inl (JsError Error ''Invalid resource URI''), st)))"

section \<open>Calling a tool\<close>

record text_content =
  content_type :: string
  content_text :: string

record ToolResult =
  content :: "text_content list"
  isError :: bool

definition tool_text :: "string \<Rightarrow> bool \<Rightarrow> ToolResult" where
  "tool_text t e = \<lparr>content = [\<lparr>content_type = ''text'', content_text = t\<rparr>], isError = e\<rparr>"

text \<open>\<open>request.params.arguments?.k\<close>: undefined when there are no arguments or no \<open>k\<close>.\<close>

definition argument :: "(string \<rightharpoonup> jsval) option \<Rightarrow> string \<Rightarrow> jsval" where
  "argument arguments k =
     (case arguments of
        None \<Rightarrow> JUndefined
      | Some m \<Rightarrow> (case m k of None \<Rightarrow> JUndefined | Some v \<Rightarrow> v))"

text \<open>Lines 448 to 456.\<close>

definition format_of :: "(string \<rightharpoonup> jsval) option \<Rightarrow> jsval" where
  "format_of arguments =
     (if truthy (argument arguments ''format'') then argument arguments ''format''
      else JStr ''json'')"

definition acceptHeader :: "jsval \<Rightarrow> string" where
  "acceptHeader format =
     (if format = JStr ''xml'' then ''application/sparql-results+xml''
      else if format = JStr ''csv'' then ''text/csv''
      else ''application/sparql-results+json'')"

text \<open>The branch for the other formats, lines 474 to 508, inside the \<open>try\<close>.\<close>

definition raw_query :: "'w env \<Rightarrow> 'w state \<Rightarrow> jsval \<Rightarrow> string \<Rightarrow> (js_error + string) \<times> 'w state" where
  "raw_query env st query accept =
     (case do_fetch env st (sparql_request env query accept) of
        (Rejected e, st1) \<Rightarrow> (Inl e, st1)
      | (Resolved r, st1) \<Rightarrow>
          if \<not> ok r then (Inl (query_failed r), st1)
          else (body_text r, st1))"

text \<open>
  The handler of \<open>CallToolRequestSchema\<close>, lines 444 to 548. The rewrite of the query
  comes before the \<open>try\<close>: an error it raises leaves the handler. Inside the \<open>try\<close> every
  error becomes a result with \<open>isError: true\<close>.
\<close>

definition CallTool ::
  "'w env \<Rightarrow> 'w state \<Rightarrow> string \<Rightarrow> (string \<rightharpoonup> jsval) option \<Rightarrow> (js_error + ToolResult) \<times> 'w state" where
  "CallTool env st tool arguments =
     (if tool = ''sparqlQuery'' then
        (let sparqlQuery = argument arguments ''query'';
             graph = argument arguments ''graph'';
             format = format_of arguments
         in case modifiedQuery sparqlQuery graph of
              Inl e \<Rightarrow> (Inl e, st)
            | Inr q \<Rightarrow>
                if format \<noteq> JStr ''json'' then
                  (case raw_query env st q (acceptHeader format) of
                     (Inl error, st1) \<Rightarrow>
                       (Inr (tool_text (''Error executing query: '' @ message error) True), st1)
                   | (Inr textResult, st1) \<Rightarrow> (Inr (tool_text textResult False), st1))
                else
                  (case executeSparqlQuery env st q (acceptHeader format) of
                     (Inl error, st1) \<Rightarrow>
                       (Inr (tool_text (''Error executing query: '' @ message error) True), st1)
                   | (Inr result, st1) \<Rightarrow>
                       (Inr (tool_text (JSON_stringify env (ResultJson result)) False), st1)))
      else if tool = ''listGraphs'' then
        (case executeSparqlQuery env st (JStr listGraphs_query) default_accept of
           (Inl error, st1) \<Rightarrow>
             (Inr (tool_text (''Error listing graphs: '' @ message error) True), st1)
         | (Inr result, st1) \<Rightarrow>
             (Inr (tool_text (JSON_stringify env (ResultJson result)) False), st1))
      else (Inl (JsError Error (''Unknown tool: '' @ tool)), st))"

section \<open>Comparing query texts\<close>

text \<open>
  The tokens of a query text: its maximal runs of characters other than space, tab,
  line feed and carriage return. Two texts with the same tokens differ only in their
  white space.
\<close>

definition is_space :: "char \<Rightarrow> bool" where
  "is_space c = (c \<in> set [CHR '' '', CHR 0x09, CHR 0x0A, CHR 0x0D])"

fun tokens_from :: "string \<Rightarrow> string \<Rightarrow> string list" where
  "tokens_from w [] = (if w = [] then [] else [rev w])"
| "tokens_from w (c # cs) =
     (if is_space c then (if w = [] then tokens_from [] cs else rev w # tokens_from [] cs)
      else tokens_from (c # w) cs)"

definition sparql_tokens :: "string \<Rightarrow> string list" where
  "sparql_tokens s = tokens_from [] s"

text \<open>The four view-kind tokens of a resource address.\<close>

definition is_view_kind :: "string \<Rightarrow> bool" where
  "is_view_kind c = (c \<in> set [CLASS_LIST_PATH, PREDICATES_PATH, SAMPLE_DATA_PATH, STATS_PATH])"

section \<open>An example deployment\<close>

text \<open>
  A server for the repository \<open>repo\<close> at \<open>http://localhost:7200\<close> without credentials.
  The endpoint answers the requests it gets with a prepared list of replies, in order,
  and refuses the connection once the list is used up. The stand-ins for
  \<open>JSON.stringify\<close> and for the URL parser are enough to tell the payloads and the
  addresses of the examples apart.
\<close>

definition scripted_fetch :: "fetch_result list \<Rightarrow> request \<Rightarrow> fetch_result \<times> fetch_result list" where
  "scripted_fetch replies req =
     (case replies of
        [] \<Rightarrow> (Rejected (JsError Error ''connect ECONNREFUSED''), [])
      | r # rs \<Rightarrow> (r, rs))"

definition demo_stringify :: "payload \<Rightarrow> string" where
  "demo_stringify p =
     (case p of
        ResultJson r \<Rightarrow> ''{head,results}''
      | StatisticsJson kvs \<Rightarrow> ''{statistics}''
      | GraphJson s m c \<Rightarrow> ''{sampleData,metadata,ontologyClasses}'')"

definition demo_pathname :: "string \<Rightarrow> js_error + string" where
  "demo_pathname u =
     (if prefix ''graphdb://localhost:7200/'' u then Inr (drop 24 u)
      else Inl (JsError TypeError ''Invalid URL''))"

definition demo_env :: "fetch_result list env" where
  "demo_env =
     \<lparr>endpoint = ''http://localhost:7200'', repository = ''repo'',
      username = [], password = [], cfAccessClientId = [], cfAccessClientSecret = [],
      fetch = scripted_fetch, base64 = (\<lambda>s. s), JSON_stringify = demo_stringify,
      URL_pathname = demo_pathname,
      URL_href = (\<lambda>rel. ''graphdb://localhost:7200/'' @ rel)\<rparr>"

definition start :: "fetch_result list \<Rightarrow> fetch_result list state" where
  "start replies = \<lparr>requests = [], remote = replies\<rparr>"

definition iri :: "string \<Rightarrow> rdf_term" where
  "iri v = \<lparr>term_type = ''uri'', term_value = v, term_datatype = None, term_lang = None\<rparr>"

definition count_literal :: "string \<Rightarrow> rdf_term" where
  "count_literal v =
     \<lparr>term_type = ''literal'', term_value = v,
      term_datatype = Some ''http://www.w3.org/2001/XMLSchema#integer'', term_lang = None\<rparr>"

definition rows :: "string list \<Rightarrow> SparqlBinding list \<Rightarrow> SparqlResults" where
  "rows vs bs = \<lparr>head = \<lparr>vars = vs, link = None\<rparr>, results = \<lparr>bindings = bs\<rparr>\<rparr>"

definition reply :: "string \<Rightarrow> SparqlResults \<Rightarrow> fetch_result" where
  "reply raw r =
     Resolved \<lparr>ok = True, status = 200, statusText = ''OK'', body_text = Inr raw, body_json = Inr r\<rparr>"

definition server_error :: fetch_result where
  "server_error =
     Resolved \<lparr>ok = False, status = 500, statusText = ''Internal Server Error'',
               body_text = Inr [],
               body_json = Inl (JsError SyntaxError ''Unexpected end of JSON input'')\<rparr>"

section \<open>Facts about the primitives\<close>

lemmas demo_defs = demo_env_def start_def scripted_fetch_def demo_stringify_def demo_pathname_def
  iri_def count_literal_def rows_def reply_def server_error_def

lemmas path_defs = REPOSITORY_PATH_def GRAPH_PATH_def CLASS_LIST_PATH_def PREDICATES_PATH_def
  SAMPLE_DATA_PATH_def STATS_PATH_def

text \<open>\<open>includes\<close> is the substring test, and \<open>indexOf\<close> finds the first occurrence.\<close>

lemma str_includes_sublist: "str_includes s p \<longleftrightarrow> sublist p s"
  by (induction s) (auto simp add: sublist_Cons_right)

lemma indexOf_lower: "- 1 \<le> indexOf s p"
  by (induction s) (auto simp add: Let_def)

lemma indexOf_negative: "indexOf s p < 0 \<longleftrightarrow> \<not> str_includes s p"
  by (induction s) (auto simp add: Let_def)

lemma indexOf_first:
  "indexOf s p = int i \<Longrightarrow> prefix p (drop i s) \<and> (\<forall>j<i. \<not> prefix p (drop j s))"
proof (induction s arbitrary: i)
  case Nil
  then show ?case by (auto split: if_splits)
next
  case (Cons c cs)
  show ?case
  proof (cases "prefix p (c # cs)")
    case True
    with Cons.prems show ?thesis by simp
  next
    case False
    with Cons.prems have r: "indexOf cs p \<ge> 0" "int i = indexOf cs p + 1"
      by (auto simp add: Let_def split: if_splits)
    define k where "k = i - 1"
    with r have k: "i = Suc k" "indexOf cs p = int k"
      by auto
    from Cons.IH [OF k(2)] have "prefix p (drop k cs)" "\<forall>j<k. \<not> prefix p (drop j cs)"
      by auto
    with False k show ?thesis
      by (auto simp add: less_Suc_eq_0_disj)
  qed
qed

text \<open>Every query sent is recorded, once.\<close>

lemma executeSparqlQuery_requests:
  "executeSparqlQuery env st q a = (r, st1) \<Longrightarrow>
   requests st1 = requests st @ [sparql_request env q a]"
  by (auto simp add: executeSparqlQuery_def do_fetch_def
      split: prod.splits fetch_result.splits if_splits)

lemma raw_query_requests:
  "raw_query env st q a = (r, st1) \<Longrightarrow>
   requests st1 = requests st @ [sparql_request env q a]"
  by (auto simp add: raw_query_def do_fetch_def
      split: prod.splits fetch_result.splits if_splits)

section \<open>The rewrite on query texts\<close>

text \<open>
  What the rewrite does to a query text that names no graph itself, when a graph is
  given: the clause goes in front of the first \<open>WHERE\<close> if that is not at the very
  start of the text, and the text stays as it is otherwise.
\<close>

lemma modifiedQuery_string:
  assumes "truthy g"
    and "ToString g = Inr gs"
    and "\<not> str_includes q ''FROM <''"
    and "\<not> str_includes q ''GRAPH <''"
  shows "modifiedQuery (JStr q) g =
           Inr (JStr (if 0 < indexOf q ''WHERE''
                      then take (nat (indexOf q ''WHERE'')) q @ ''FROM <'' @ gs @ ''> '' @
                           drop (nat (indexOf q ''WHERE'')) q
                      else q))"
  using assms by (simp add: modifiedQuery_def substring_def substring_from_def Let_def)

lemma modifiedQuery_no_WHERE:
  assumes "\<not> str_includes q ''WHERE''"
  shows "modifiedQuery (JStr q) g = Inr (JStr q)"
proof -
  from assms have "indexOf q ''WHERE'' < 0" by (simp add: indexOf_negative)
  then show ?thesis by (simp add: modifiedQuery_def Let_def)
qed

lemma modifiedQuery_no_graph: "\<not> truthy g \<Longrightarrow> modifiedQuery q g = Inr q"
  by (simp add: modifiedQuery_def)

text \<open>
  With a query text and a graph that is a string the rewrite goes through. A graph
  object with a \<open>toString\<close> property of its own makes the template literal raise.
\<close>

lemma modifiedQuery_strings_total: "\<exists>q'. modifiedQuery (JStr q) (JStr g) = Inr (JStr q')"
  by (simp add: modifiedQuery_def Let_def)

lemma modifiedQuery_graph_not_primitive:
  "modifiedQuery (JStr ''SELECT * WHERE { ?s ?p ?o }'') (JObj [(''toString'', JNum ''1'')]) =
     Inl not_primitive"
  by (simp add: modifiedQuery_def)

text \<open>
  Claim C3. With a graph given and a query text that names no graph, the clause is to
  go in front of the first \<open>WHERE\<close>. The test \<open>insertPoint > 0\<close> leaves out a \<open>WHERE\<close>
  at index 0, where \<open>indexOf\<close> has found the keyword: the query \<open>WHERE { ?s ?p ?o }\<close> with the
  graph \<open>urn:g\<close> comes back as it was, without the clause.
\<close>

theorem modifiedQuery_leading_WHERE_not_scoped:
  "indexOf ''WHERE { ?s ?p ?o }'' ''WHERE'' = 0 \<and>
   \<not> str_includes ''WHERE { ?s ?p ?o }'' ''FROM <'' \<and>
   \<not> str_includes ''WHERE { ?s ?p ?o }'' ''GRAPH <'' \<and>
   modifiedQuery (JStr ''WHERE { ?s ?p ?o }'') (JStr ''urn:g'') =
     Inr (JStr ''WHERE { ?s ?p ?o }'') \<and>
   modifiedQuery (JStr ''WHERE { ?s ?p ?o }'') (JStr ''urn:g'') \<noteq>
     Inr (JStr ''FROM <urn:g> WHERE { ?s ?p ?o }'')"
  by (simp add: modifiedQuery_def)

text \<open>
  Claim C4. The rewrite is idempotent on a query text that already has a source-scoping
  clause (\<open>FROM <\<close> occurs in it): rewriting the rewritten query for the same graph
  gives the rewritten query again.
\<close>

theorem modifiedQuery_idempotent_when_scoped:
  assumes "str_includes q ''FROM <''"
  shows "\<exists>q'. modifiedQuery (JStr q) g = Inr q' \<and>
              modifiedQuery q' g = modifiedQuery (JStr q) g"
  using assms by (simp add: modifiedQuery_def)

text \<open>The rewrite of a query with a \<open>FROM\<close> clause of its own, for the graph \<open>urn:g\<close>.\<close>

theorem modifiedQuery_idempotent_when_scoped_witness:
  "str_includes ''SELECT * FROM <urn:a> WHERE { ?s ?p ?o }'' ''FROM <'' \<and>
   modifiedQuery (JStr ''SELECT * FROM <urn:a> WHERE { ?s ?p ?o }'') (JStr ''urn:g'') =
     Inr (JStr ''SELECT * FROM <urn:a> WHERE { ?s ?p ?o }'') \<and>
   (\<exists>q'. modifiedQuery (JStr ''SELECT * FROM <urn:a> WHERE { ?s ?p ?o }'') (JStr ''urn:g'') = Inr q' \<and>
         modifiedQuery q' (JStr ''urn:g'') =
           modifiedQuery (JStr ''SELECT * FROM <urn:a> WHERE { ?s ?p ?o }'') (JStr ''urn:g''))"
proof -
  have h: "str_includes ''SELECT * FROM <urn:a> WHERE { ?s ?p ?o }'' ''FROM <''" by simp
  have e: "modifiedQuery (JStr ''SELECT * FROM <urn:a> WHERE { ?s ?p ?o }'') (JStr ''urn:g'') =
     Inr (JStr ''SELECT * FROM <urn:a> WHERE { ?s ?p ?o }'')"
    by (simp add: modifiedQuery_def)
  have i: "\<exists>q'. modifiedQuery (JStr ''SELECT * FROM <urn:a> WHERE { ?s ?p ?o }'') (JStr ''urn:g'') = Inr q' \<and>
         modifiedQuery q' (JStr ''urn:g'') =
           modifiedQuery (JStr ''SELECT * FROM <urn:a> WHERE { ?s ?p ?o }'') (JStr ''urn:g'')"
    by (rule modifiedQuery_idempotent_when_scoped [OF h])
  show ?thesis by (intro conjI h e i)
qed

section \<open>Calling the tools\<close>

text \<open>
  Once the rewrite has gone through, which it does for every query and graph that are
  strings, the \<open>sparqlQuery\<close> tool answers with a result, whatever the execution does.
\<close>

lemma CallTool_sparqlQuery_in_band:
  assumes "modifiedQuery (argument arguments ''query'') (argument arguments ''graph'') = Inr q"
  shows "\<exists>r. fst (CallTool env st ''sparqlQuery'' arguments) = Inr r"
  using assms by (auto simp add: CallTool_def Let_def split: prod.splits sum.splits)

text \<open>
  Claim C1. No failure of the rewrite or of the execution is to leave the \<open>sparqlQuery\<close>
  tool as a fault, whatever the arguments. The rewrite stands before the \<open>try\<close>: with a
  \<open>graph\<close> argument and no \<open>query\<close> argument, the call of \<open>includes\<close> on \<open>undefined\<close>
  raises a type error that leaves the handler, and no request is sent. The same
  happens with a \<open>query\<close> that is a number.
\<close>

theorem CallTool_rewrite_error_escapes:
  "CallTool env st ''sparqlQuery'' (Some [''graph'' \<mapsto> JStr ''urn:g'']) =
     (Inl (JsError TypeError
            (''Cannot read properties of undefined (reading '' @ [CHR 0x27] @ ''includes'' @
             [CHR 0x27] @ '')'')), st) \<and>
   CallTool env st ''sparqlQuery'' (Some [''query'' \<mapsto> JNum ''42'', ''graph'' \<mapsto> JStr ''urn:g'']) =
     (Inl (JsError TypeError ''sparqlQuery.includes is not a function''), st)"
  by (simp add: CallTool_def argument_def modifiedQuery_def cannot_read_def not_a_function_def)

text \<open>
  Claim C2, as stated: the \<open>listGraphs\<close> tool and the listing of resources send the
  executor an identical query string. The two template literals are indented
  differently, so the two strings differ.
\<close>

theorem listGraphs_query_text_differs:
  "map body (requests (snd (ListResources demo_env (start [])))) \<noteq>
   map body (requests (snd (CallTool demo_env (start []) ''listGraphs'' None)))"
  by (simp add: ListResources_def CallTool_def demo_defs executeSparqlQuery_def do_fetch_def
      sparql_request_def listResources_query_def listGraphs_query_def)

text \<open>
  Claim C2, amended. With a repository configured, the listing of resources and the
  \<open>listGraphs\<close> tool each send one request, to the same address with the same headers,
  and the two query texts have the same tokens: they are the same query up to white
  space.
\<close>

theorem listGraphs_query_same_tokens:
  assumes "repository env \<noteq> []"
  shows "requests (snd (ListResources env st)) =
           requests st @ [sparql_request env (JStr listResources_query) default_accept] \<and>
         requests (snd (CallTool env st ''listGraphs'' arguments)) =
           requests st @ [sparql_request env (JStr listGraphs_query) default_accept] \<and>
         sparql_tokens listResources_query = sparql_tokens listGraphs_query \<and>
         sparql_tokens listGraphs_query =
           [''SELECT'', ''DISTINCT'', ''?graph'', ''WHERE'', ''{'', ''GRAPH'', ''?graph'', ''{'',
            ''?s'', ''?p'', ''?o'', ''}'', ''}'', ''ORDER'', ''BY'', ''?graph'']"
proof -
  have a: "requests (snd (ListResources env st)) =
           requests st @ [sparql_request env (JStr listResources_query) default_accept]"
    using assms
    by (auto simp add: ListResources_def split: prod.splits sum.splits
        dest: executeSparqlQuery_requests)
  have b: "requests (snd (CallTool env st ''listGraphs'' arguments)) =
           requests st @ [sparql_request env (JStr listGraphs_query) default_accept]"
    by (auto simp add: CallTool_def split: prod.splits sum.splits
        dest: executeSparqlQuery_requests)
  have c: "sparql_tokens listResources_query = sparql_tokens listGraphs_query"
    by (simp add: sparql_tokens_def listResources_query_def listGraphs_query_def is_space_def)
  have d: "sparql_tokens listGraphs_query =
           [''SELECT'', ''DISTINCT'', ''?graph'', ''WHERE'', ''{'', ''GRAPH'', ''?graph'', ''{'',
            ''?s'', ''?p'', ''?o'', ''}'', ''}'', ''ORDER'', ''BY'', ''?graph'']"
    by (simp add: sparql_tokens_def listGraphs_query_def is_space_def)
  from a b c d show ?thesis by simp
qed

text \<open>The two requests of the example deployment.\<close>

theorem listGraphs_query_same_tokens_witness:
  "repository demo_env \<noteq> [] \<and>
   requests (snd (ListResources demo_env (start []))) =
     [sparql_request demo_env (JStr listResources_query) default_accept] \<and>
   requests (snd (CallTool demo_env (start []) ''listGraphs'' None)) =
     [sparql_request demo_env (JStr listGraphs_query) default_accept] \<and>
   sparql_tokens listResources_query = sparql_tokens listGraphs_query"
proof -
  have h: "repository demo_env \<noteq> []" by (simp add: demo_env_def)
  show ?thesis
    using h listGraphs_query_same_tokens [OF h, of "start []" None]
    by (simp add: start_def)
qed

text \<open>
  Claim C10, as stated: a \<open>format\<close> argument that is present and is none of \<open>json\<close>,
  \<open>xml\<close> and \<open>csv\<close> selects the raw path. The empty string is such an argument, and
  \<open>format || "json"\<close> replaces it by \<open>json\<close>: the answer is the serialised result, not
  the body of the response.
\<close>

theorem empty_format_takes_typed_path:
  "fst (CallTool demo_env (start [reply ''<sparql/>'' (rows [] [])]) ''sparqlQuery''
          (Some [''query'' \<mapsto> JStr ''SELECT * WHERE { ?s ?p ?o }'', ''format'' \<mapsto> JStr '''']))
     = Inr (tool_text (JSON_stringify demo_env (ResultJson (rows [] []))) False) \<and>
   fst (CallTool demo_env (start [reply ''<sparql/>'' (rows [] [])]) ''sparqlQuery''
          (Some [''query'' \<mapsto> JStr ''SELECT * WHERE { ?s ?p ?o }'', ''format'' \<mapsto> JStr '''']))
     \<noteq> Inr (tool_text ''<sparql/>'' False)"
  by (simp add: CallTool_def argument_def format_of_def modifiedQuery_def acceptHeader_def
      executeSparqlQuery_def do_fetch_def demo_defs tool_text_def)

text \<open>
  Claim C10, amended. When the \<open>format\<close> argument is truthy (not absent, \<open>null\<close>,
  \<open>false\<close>, \<open>0\<close> or the empty string) and is none of \<open>json\<close>, \<open>xml\<close> and \<open>csv\<close>, and the
  rewrite of the query goes through, the tool takes the raw path: it sends one request
  with the rewritten query and the JSON results encoding in the \<open>Accept\<close> header, and
  answers with the body of a successful response as literal text.
\<close>

theorem unlisted_format_takes_raw_path:
  assumes "truthy (argument arguments ''format'')"
    and "argument arguments ''format'' \<notin> {JStr ''json'', JStr ''xml'', JStr ''csv''}"
    and "modifiedQuery (argument arguments ''query'') (argument arguments ''graph'') = Inr q"
  shows "CallTool env st ''sparqlQuery'' arguments =
           (case raw_query env st q ''application/sparql-results+json'' of
              (Inl error, st1) \<Rightarrow>
                (Inr (tool_text (''Error executing query: '' @ message error) True), st1)
            | (Inr textResult, st1) \<Rightarrow> (Inr (tool_text textResult False), st1)) \<and>
         requests (snd (CallTool env st ''sparqlQuery'' arguments)) =
           requests st @
             [\<lparr>url = endpoint env @ ''/repositories/'' @ repository env, http_method = ''POST'',
               headers = sparql_headers env ''application/sparql-results+json'', body = q\<rparr>] \<and>
         (\<forall>r w t. fetch env (remote st)
                    \<lparr>url = endpoint env @ ''/repositories/'' @ repository env,
                     http_method = ''POST'',
                     headers = sparql_headers env ''application/sparql-results+json'',
                     body = q\<rparr> = (Resolved r, w) \<longrightarrow>
                  ok r \<longrightarrow> body_text r = Inr t \<longrightarrow>
                  fst (CallTool env st ''sparqlQuery'' arguments) = Inr (tool_text t False))"
proof -
  have f: "format_of arguments = argument arguments ''format''"
    using assms(1) by (simp add: format_of_def)
  have a: "acceptHeader (argument arguments ''format'') = ''application/sparql-results+json''"
    using assms(2) by (simp add: acceptHeader_def)
  have c: "CallTool env st ''sparqlQuery'' arguments =
           (case raw_query env st q ''application/sparql-results+json'' of
              (Inl error, st1) \<Rightarrow>
                (Inr (tool_text (''Error executing query: '' @ message error) True), st1)
            | (Inr textResult, st1) \<Rightarrow> (Inr (tool_text textResult False), st1))"
    using assms(2,3) by (simp add: CallTool_def f a)
  have r: "requests (snd (CallTool env st ''sparqlQuery'' arguments)) =
           requests st @ [sparql_request env q ''application/sparql-results+json'']"
    unfolding c
    by (auto split: prod.splits sum.splits dest: raw_query_requests)
  have t: "\<forall>r w t. fetch env (remote st)
                     (sparql_request env q ''application/sparql-results+json'') = (Resolved r, w) \<longrightarrow>
                  ok r \<longrightarrow> body_text r = Inr t \<longrightarrow>
                  fst (CallTool env st ''sparqlQuery'' arguments) = Inr (tool_text t False)"
    unfolding c by (simp add: raw_query_def do_fetch_def)
  from c r t show ?thesis by (simp add: sparql_request_def)
qed

text \<open>A call with the format \<open>turtle\<close> and a graph, answered with a Turtle body.\<close>

theorem unlisted_format_takes_raw_path_witness:
  "CallTool demo_env (start [reply ''@prefix : <urn:x> .'' (rows [] [])]) ''sparqlQuery''
     (Some [''query'' \<mapsto> JStr ''SELECT * WHERE { ?s ?p ?o }'', ''format'' \<mapsto> JStr ''turtle'',
            ''graph'' \<mapsto> JStr ''urn:g'']) =
   (Inr (tool_text ''@prefix : <urn:x> .'' False),
    \<lparr>requests =
       [\<lparr>url = ''http://localhost:7200/repositories/repo'', http_method = ''POST'',
         headers = [(''Content-Type'', ''application/sparql-query''),
                    (''Accept'', ''application/sparql-results+json'')],
         body = JStr ''SELECT * FROM <urn:g> WHERE { ?s ?p ?o }''\<rparr>],
     remote = []\<rparr>)"
proof -
  let ?args = "Some [''query'' \<mapsto> JStr ''SELECT * WHERE { ?s ?p ?o }'',
                     ''format'' \<mapsto> JStr ''turtle'', ''graph'' \<mapsto> JStr ''urn:g'']"
  have 1: "truthy (argument ?args ''format'')" by (simp add: argument_def)
  have 2: "argument ?args ''format'' \<notin> {JStr ''json'', JStr ''xml'', JStr ''csv''}"
    by (simp add: argument_def)
  have 3: "modifiedQuery (argument ?args ''query'') (argument ?args ''graph'') =
           Inr (JStr ''SELECT * FROM <urn:g> WHERE { ?s ?p ?o }'')"
    by (simp add: argument_def modifiedQuery_def substring_def substring_from_def)
  from unlisted_format_takes_raw_path
         [OF 1 2 3, of demo_env "start [reply ''@prefix : <urn:x> .'' (rows [] [])]"]
  show ?thesis
    by (simp add: raw_query_def do_fetch_def demo_defs sparql_request_def sparql_headers_def
        hasAuth_def hasCfAccess_def)
qed

section \<open>Listing resources\<close>

text \<open>
  Claim C5. The listing of resources is empty when no repository is configured and
  when the graph-discovery query fails, and it never ends in an error.
\<close>

theorem ListResources_degrades_to_empty:
  "(repository env = [] \<longrightarrow> ListResources env st = (Inr [], st)) \<and>
   (\<forall>e st1. repository env \<noteq> [] \<longrightarrow>
      executeSparqlQuery env st (JStr listResources_query) default_accept = (Inl e, st1) \<longrightarrow>
      ListResources env st = (Inr [], st1)) \<and>
   (\<forall>e. fst (ListResources env st) \<noteq> Inl e)"
  by (auto simp add: ListResources_def split: prod.splits sum.splits)

text \<open>
  The example deployment without a repository name, and with an endpoint that answers
  the graph-discovery query with status 500.
\<close>

theorem ListResources_degrades_to_empty_witness:
  "ListResources (demo_env\<lparr>repository := []\<rparr>) (start []) = (Inr [], start []) \<and>
   ListResources demo_env (start [server_error]) =
     (Inr [], \<lparr>requests = [sparql_request demo_env (JStr listResources_query) default_accept],
              remote = []\<rparr>)"
proof -
  let ?st1 = "\<lparr>requests = [sparql_request demo_env (JStr listResources_query) default_accept],
               remote = []\<rparr>"
  have 1: "repository (demo_env\<lparr>repository := []\<rparr>) = []" by simp
  have 2: "repository demo_env \<noteq> []" by (simp add: demo_env_def)
  have 3: "\<exists>e. executeSparqlQuery demo_env (start [server_error]) (JStr listResources_query)
                 default_accept = (Inl e, ?st1)"
    by (simp add: demo_defs executeSparqlQuery_def do_fetch_def)
  from ListResources_degrades_to_empty [of "demo_env\<lparr>repository := []\<rparr>" "start []"] 1
  have a: "ListResources (demo_env\<lparr>repository := []\<rparr>) (start []) = (Inr [], start [])"
    by blast
  from ListResources_degrades_to_empty [of demo_env "start [server_error]"] 2 3
  have b: "ListResources demo_env (start [server_error]) = (Inr [], ?st1)"
    by blast
  from a b show ?thesis by simp
qed

lemma graph_values_all_bound:
  "map (\<lambda>b. map_of b ''graph'') bs = map Some ts \<Longrightarrow>
   graph_values bs = Inr (map term_value ts)"
proof (induction bs arbitrary: ts)
  case Nil
  then show ?case by simp
next
  case (Cons b bs)
  then obtain t ts' where ts: "ts = t # ts'" by (cases ts) auto
  with Cons show ?case by simp
qed

text \<open>
  Claim C6. When the graph-discovery query succeeds and every row binds \<open>graph\<close>, to
  the terms \<open>ts\<close>, the listing has \<open>4 + length ts\<close> descriptors: the class list, the
  predicates, the statistics and the sample data, in this order, and then one
  descriptor for each graph, in the order of the rows.
\<close>

theorem ListResources_fixed_views_then_graphs:
  assumes "repository env \<noteq> []"
    and "executeSparqlQuery env st (JStr listResources_query) default_accept = (Inr result, st1)"
    and "map (\<lambda>b. map_of b ''graph'') (bindings (results result)) = map Some ts"
  shows "\<exists>rs. ListResources env st = (Inr rs, st1) \<and>
           length rs = 4 + length ts \<and>
           take 4 rs =
             [\<lparr>uri = view_uri env CLASS_LIST_PATH, mimeType = ''application/json'',
               name = ''Repository '' @ quoted (repository env) @ '' class list''\<rparr>,
              \<lparr>uri = view_uri env PREDICATES_PATH, mimeType = ''application/json'',
               name = ''Repository '' @ quoted (repository env) @ '' predicates''\<rparr>,
              \<lparr>uri = view_uri env STATS_PATH, mimeType = ''application/json'',
               name = ''Repository '' @ quoted (repository env) @ '' statistics''\<rparr>,
              \<lparr>uri = view_uri env SAMPLE_DATA_PATH, mimeType = ''application/json'',
               name = ''Repository '' @ quoted (repository env) @ '' sample data''\<rparr>] \<and>
           drop 4 rs = map (\<lambda>t. graph_resource env (term_value t)) ts"
  using assms graph_values_all_bound [OF assms(3)]
  by (simp add: ListResources_def comp_def)

text \<open>The listing of a repository with the graphs \<open>urn:a\<close> and \<open>urn:b\<close>.\<close>

theorem ListResources_fixed_views_then_graphs_witness:
  "\<exists>rs. ListResources demo_env
          (start [reply [] (rows [''graph'']
                              [[(''graph'', iri ''urn:a'')], [(''graph'', iri ''urn:b'')]])]) =
          (Inr rs, \<lparr>requests = [sparql_request demo_env (JStr listResources_query) default_accept],
                    remote = []\<rparr>) \<and>
        length rs = 6 \<and>
        map name rs =
          [''Repository '' @ quoted ''repo'' @ '' class list'',
           ''Repository '' @ quoted ''repo'' @ '' predicates'',
           ''Repository '' @ quoted ''repo'' @ '' statistics'',
           ''Repository '' @ quoted ''repo'' @ '' sample data'',
           ''Graph '' @ quoted ''urn:a'', ''Graph '' @ quoted ''urn:b'']"
proof -
  let ?result = "rows [''graph''] [[(''graph'', iri ''urn:a'')], [(''graph'', iri ''urn:b'')]]"
  let ?st1 = "\<lparr>requests = [sparql_request demo_env (JStr listResources_query) default_accept],
               remote = []\<rparr>"
  have 1: "repository demo_env \<noteq> []" by (simp add: demo_env_def)
  have 2: "executeSparqlQuery demo_env (start [reply [] ?result]) (JStr listResources_query)
             default_accept = (Inr ?result, ?st1)"
    by (simp add: demo_defs executeSparqlQuery_def do_fetch_def)
  have 3: "map (\<lambda>b. map_of b ''graph'') (bindings (results ?result)) =
           map Some [iri ''urn:a'', iri ''urn:b'']"
    by (simp add: rows_def)
  from ListResources_fixed_views_then_graphs [OF 1 2 3]
  obtain rs where rs: "ListResources demo_env (start [reply [] ?result]) = (Inr rs, ?st1)"
      "length rs = 4 + length [iri ''urn:a'', iri ''urn:b'']"
      "take 4 rs =
             [\<lparr>uri = view_uri demo_env CLASS_LIST_PATH, mimeType = ''application/json'',
               name = ''Repository '' @ quoted (repository demo_env) @ '' class list''\<rparr>,
              \<lparr>uri = view_uri demo_env PREDICATES_PATH, mimeType = ''application/json'',
               name = ''Repository '' @ quoted (repository demo_env) @ '' predicates''\<rparr>,
              \<lparr>uri = view_uri demo_env STATS_PATH, mimeType = ''application/json'',
               name = ''Repository '' @ quoted (repository demo_env) @ '' statistics''\<rparr>,
              \<lparr>uri = view_uri demo_env SAMPLE_DATA_PATH, mimeType = ''application/json'',
               name = ''Repository '' @ quoted (repository demo_env) @ '' sample data''\<rparr>]"
      "drop 4 rs = map (\<lambda>t. graph_resource demo_env (term_value t)) [iri ''urn:a'', iri ''urn:b'']"
    by blast
  have "rs = take 4 rs @ drop 4 rs" by simp
  then have "map name rs = map name (take 4 rs) @ map name (drop 4 rs)"
    by (metis map_append)
  with rs show ?thesis
    by (simp add: graph_resource_def iri_def demo_env_def)
qed

section \<open>Reading a resource\<close>

lemma statistics_graphs:
  "map_of (statistics bs g) ''graphs'' = Some (map_of g ''graphs'')"
  by (simp add: statistics_def update_conv')

lemma map_of_spread_row:
  "map_of (map (\<lambda>(k, t). (k, Some t)) b) k = map_option Some (map_of b k)"
  by (induction b) auto

lemma statistics_others:
  "k \<noteq> ''graphs'' \<Longrightarrow>
   map_of (statistics bs g) k =
     (case bs of [] \<Rightarrow> None | b # _ \<Rightarrow> map_option Some (map_of b k))"
  by (cases bs) (simp_all add: statistics_def update_conv' spread_binding_def map_of_spread_row)

lemma statistics_keys:
  "map fst (statistics bs g) =
     (case bs of
        [] \<Rightarrow> [''graphs'']
      | b # _ \<Rightarrow> if ''graphs'' \<in> set (map fst b) then map fst b else map fst b @ [''graphs''])"
proof (cases bs)
  case Nil
  then show ?thesis by (simp add: statistics_def spread_binding_def)
next
  case (Cons b rest)
  have "map fst (map (\<lambda>(k, t). (k, Some t)) b) = map fst b"
    by (induction b) auto
  with Cons show ?thesis
    by (simp add: statistics_def spread_binding_def update_keys del: map_map)
qed

text \<open>
  Claim C7, as stated: for every pair of successful query results the statistics view
  gives one merged object with the \<open>graphs\<close> value of the second. A successful second
  result need not have a row: then \<open>graphResult.results.bindings[0]\<close> is undefined, the
  read of \<open>graphs\<close> at line 296 raises a type error, and the read of the resource fails
  although both queries succeeded.
\<close>

theorem statistics_view_rowless_count_raises:
  "fst (executeSparqlQuery demo_env
          (start [reply [] (rows [''triples''] [[(''triples'', count_literal ''0'')]]),
                  reply [] (rows [''graphs''] [])])
          (JStr stats_query) default_accept) =
     Inr (rows [''triples''] [[(''triples'', count_literal ''0'')]]) \<and>
   fst (executeSparqlQuery demo_env
          (snd (executeSparqlQuery demo_env
                  (start [reply [] (rows [''triples''] [[(''triples'', count_literal ''0'')]]),
                          reply [] (rows [''graphs''] [])])
                  (JStr stats_query) default_accept))
          (JStr graphQuery) default_accept) =
     Inr (rows [''graphs''] []) \<and>
   fst (ReadResource demo_env
          (start [reply [] (rows [''triples''] [[(''triples'', count_literal ''0'')]]),
                  reply [] (rows [''graphs''] [])])
          ''graphdb://localhost:7200/repository/repo/stats'') =
     Inl (JsError TypeError
            (''Cannot read properties of undefined (reading '' @ [CHR 0x27] @ ''graphs'' @
             [CHR 0x27] @ '')''))"
proof -
  have p: "scanPath (str_split CHR ''/'' ''/repository/repo/stats'') no_address =
             Inr \<lparr>repoName = ''repo'', graphUri = [], resourceType = ''stats''\<rparr>"
    by code_simp
  show ?thesis
    by (simp add: ReadResource_def p path_defs statsView_def demo_defs executeSparqlQuery_def
        do_fetch_def cannot_read_def)
qed

text \<open>
  Claim C7, amended. Reading the statistics view sends exactly two queries when both
  succeed, and when the second result has a row the answer is one object whose \<open>graphs\<close>
  property is the \<open>graphs\<close> value of the first row of the second result, also when the
  first row of the first result has a \<open>graphs\<close> property of its own. Every other
  property is the one of the first row of the first result (there is none when that
  result has no row), and the properties keep the order of that row, with \<open>graphs\<close>
  last when the row has none.
\<close>

theorem statistics_view_merges_two_queries:
  assumes "URL_pathname env u = Inr pathname"
    and "scanPath (str_split CHR ''/'' pathname) no_address = Inr a"
    and "repoName a \<noteq> []"
    and "resourceType a = STATS_PATH"
    and "executeSparqlQuery env st (JStr stats_query) default_accept = (Inr result, st1)"
    and "executeSparqlQuery env st1 (JStr graphQuery) default_accept = (Inr graphResult, st2)"
    and "bindings (results graphResult) = graphBinding # others"
  shows "ReadResource env st u =
           (Inr (json_contents env u
                   (StatisticsJson (statistics (bindings (results result)) graphBinding))), st2) \<and>
         map_of (statistics (bindings (results result)) graphBinding) ''graphs'' =
           Some (map_of graphBinding ''graphs'') \<and>
         (\<forall>k. k \<noteq> ''graphs'' \<longrightarrow>
              map_of (statistics (bindings (results result)) graphBinding) k =
                (case bindings (results result) of
                   [] \<Rightarrow> None
                 | row # _ \<Rightarrow> map_option Some (map_of row k))) \<and>
         map fst (statistics (bindings (results result)) graphBinding) =
           (case bindings (results result) of
              [] \<Rightarrow> [''graphs'']
            | row # _ \<Rightarrow>
                if ''graphs'' \<in> set (map fst row) then map fst row
                else map fst row @ [''graphs'']) \<and>
         requests st2 = requests st @
           [sparql_request env (JStr stats_query) default_accept,
            sparql_request env (JStr graphQuery) default_accept]"
proof -
  let ?merged = "statistics (bindings (results result)) graphBinding"
  have rd: "ReadResource env st u = statsView env st u"
    using assms(1-4)
    by (simp add: ReadResource_def STATS_PATH_def CLASS_LIST_PATH_def PREDICATES_PATH_def)
  have sv: "statsView env st u = (Inr (json_contents env u (StatisticsJson ?merged)), st2)"
    using assms(5-7) by (simp add: statsView_def)
  have rq: "requests st2 = requests st @
             [sparql_request env (JStr stats_query) default_accept,
              sparql_request env (JStr graphQuery) default_accept]"
    using executeSparqlQuery_requests [OF assms(5)] executeSparqlQuery_requests [OF assms(6)]
    by simp
  have g: "map_of ?merged ''graphs'' = Some (map_of graphBinding ''graphs'')"
    by (rule statistics_graphs)
  have o: "\<forall>k. k \<noteq> ''graphs'' \<longrightarrow>
             map_of ?merged k =
               (case bindings (results result) of
                  [] \<Rightarrow> None
                | row # _ \<Rightarrow> map_option Some (map_of row k))"
    by (simp add: statistics_others)
  have k: "map fst ?merged =
             (case bindings (results result) of
                [] \<Rightarrow> [''graphs'']
              | row # _ \<Rightarrow>
                  if ''graphs'' \<in> set (map fst row) then map fst row
                  else map fst row @ [''graphs''])"
    by (rule statistics_keys)
  from rd sv
  have r: "ReadResource env st u = (Inr (json_contents env u (StatisticsJson ?merged)), st2)"
    by simp
  show ?thesis
    by (intro conjI r g o k rq)
qed

text \<open>
  The statistics of the example repository: the first query answers with a row that
  has a \<open>graphs\<close> property, 99, and the second with the count 3.
\<close>

theorem statistics_view_merges_two_queries_witness:
  "ReadResource demo_env
     (start [reply [] (rows [''subjects'', ''graphs'']
                         [[(''subjects'', count_literal ''10''), (''graphs'', count_literal ''99'')]]),
             reply [] (rows [''graphs''] [[(''graphs'', count_literal ''3'')]])])
     ''graphdb://localhost:7200/repository/repo/stats'' =
   (Inr (json_contents demo_env ''graphdb://localhost:7200/repository/repo/stats''
           (StatisticsJson [(''subjects'', Some (count_literal ''10'')),
                            (''graphs'', Some (count_literal ''3''))])),
    \<lparr>requests = [sparql_request demo_env (JStr stats_query) default_accept,
                 sparql_request demo_env (JStr graphQuery) default_accept],
     remote = []\<rparr>)"
proof -
  let ?u = "''graphdb://localhost:7200/repository/repo/stats''"
  let ?a = "\<lparr>repoName = ''repo'', graphUri = [], resourceType = ''stats''\<rparr>"
  let ?r1 = "rows [''subjects'', ''graphs'']
               [[(''subjects'', count_literal ''10''), (''graphs'', count_literal ''99'')]]"
  let ?r2 = "rows [''graphs''] [[(''graphs'', count_literal ''3'')]]"
  let ?st1 = "\<lparr>requests = [sparql_request demo_env (JStr stats_query) default_accept],
               remote = [reply [] ?r2]\<rparr>"
  let ?st2 = "\<lparr>requests = [sparql_request demo_env (JStr stats_query) default_accept,
                            sparql_request demo_env (JStr graphQuery) default_accept],
               remote = []\<rparr>"
  have 1: "URL_pathname demo_env ?u = Inr ''/repository/repo/stats''"
    by (simp add: demo_defs)
  have 2: "scanPath (str_split CHR ''/'' ''/repository/repo/stats'') no_address = Inr ?a"
    by code_simp
  have 3: "repoName ?a \<noteq> []" by simp
  have 4: "resourceType ?a = STATS_PATH" by (simp add: STATS_PATH_def)
  have 5: "executeSparqlQuery demo_env (start [reply [] ?r1, reply [] ?r2]) (JStr stats_query)
             default_accept = (Inr ?r1, ?st1)"
    by (simp add: demo_defs executeSparqlQuery_def do_fetch_def)
  have 6: "executeSparqlQuery demo_env ?st1 (JStr graphQuery) default_accept = (Inr ?r2, ?st2)"
    by (simp add: demo_defs executeSparqlQuery_def do_fetch_def)
  have 7: "bindings (results ?r2) = [(''graphs'', count_literal ''3'')] # []"
    by (simp add: rows_def)
  have 8: "statistics (bindings (results ?r1)) [(''graphs'', count_literal ''3'')] =
           [(''subjects'', Some (count_literal ''10'')), (''graphs'', Some (count_literal ''3''))]"
    by (simp add: statistics_def spread_binding_def rows_def)
  from statistics_view_merges_two_queries [OF 1 2 3 4 5 6 7, THEN conjunct1]
  show ?thesis unfolding 8 .
qed

text \<open>
  Claim C8. In the graph view, reached when the address has a repository name, no
  view-kind token and a graph identifier: a failure of the ontology-class query leaves
  the sample data and the metadata of the other two queries in the answer, with an
  empty \<open>ontologyClasses\<close>; a failure of the sample-data query or of the metadata query
  is the outcome of the read.
\<close>

theorem graph_view_absorbs_only_ontology_failure:
  assumes "URL_pathname env u = Inr pathname"
    and "scanPath (str_split CHR ''/'' pathname) no_address = Inr a"
    and "repoName a \<noteq> []"
    and "\<not> is_view_kind (resourceType a)"
    and "graphUri a \<noteq> []"
  shows "(\<forall>result st1 metadataResult st2 e st3.
            executeSparqlQuery env st (JStr (graph_sample_query (graphUri a))) default_accept =
              (Inr result, st1) \<longrightarrow>
            executeSparqlQuery env st1 (JStr (metadataQuery (graphUri a))) default_accept =
              (Inr metadataResult, st2) \<longrightarrow>
            executeSparqlQuery env st2 (JStr (ontologyQuery (graphUri a))) default_accept =
              (Inl e, st3) \<longrightarrow>
            ReadResource env st u =
              (Inr (json_contents env u
                      (GraphJson (bindings (results result))
                                 (case bindings (results metadataResult) of
                                    [] \<Rightarrow> None | m # _ \<Rightarrow> Some m)
                                 [])), st3)) \<and>
         (\<forall>e st1.
            executeSparqlQuery env st (JStr (graph_sample_query (graphUri a))) default_accept =
              (Inl e, st1) \<longrightarrow>
            ReadResource env st u = (Inl e, st1)) \<and>
         (\<forall>result st1 e st2.
            executeSparqlQuery env st (JStr (graph_sample_query (graphUri a))) default_accept =
              (Inr result, st1) \<longrightarrow>
            executeSparqlQuery env st1 (JStr (metadataQuery (graphUri a))) default_accept =
              (Inl e, st2) \<longrightarrow>
            ReadResource env st u = (Inl e, st2))"
proof -
  have rd: "ReadResource env st u = graphView env st u (graphUri a)"
    using assms by (simp add: ReadResource_def is_view_kind_def)
  show ?thesis
    unfolding rd by (simp add: graphView_def)
qed

text \<open>
  The graph \<open>urn:a\<close> of the example repository, read three times: the endpoint fails
  on the third query, on the first, and on the second.
\<close>

theorem graph_view_absorbs_only_ontology_failure_witness:
  "fst (ReadResource demo_env
          (start [reply [] (rows [''subject''] [[(''subject'', iri ''urn:s'')]]),
                  reply [] (rows [''triples''] [[(''triples'', count_literal ''1'')]]),
                  server_error])
          ''graphdb://localhost:7200/repository/repo/graph/urn%3Aa'') =
     Inr (json_contents demo_env ''graphdb://localhost:7200/repository/repo/graph/urn%3Aa''
            (GraphJson [[(''subject'', iri ''urn:s'')]]
                       (Some [(''triples'', count_literal ''1'')]) [])) \<and>
   (\<exists>e. fst (ReadResource demo_env (start [server_error])
               ''graphdb://localhost:7200/repository/repo/graph/urn%3Aa'') = Inl e) \<and>
   (\<exists>e. fst (ReadResource demo_env
               (start [reply [] (rows [''subject''] [[(''subject'', iri ''urn:s'')]]),
                       server_error])
               ''graphdb://localhost:7200/repository/repo/graph/urn%3Aa'') = Inl e)"
proof -
  let ?u = "''graphdb://localhost:7200/repository/repo/graph/urn%3Aa''"
  let ?a = "\<lparr>repoName = ''repo'', graphUri = ''urn:a'', resourceType = []\<rparr>"
  let ?r1 = "rows [''subject''] [[(''subject'', iri ''urn:s'')]]"
  let ?r2 = "rows [''triples''] [[(''triples'', count_literal ''1'')]]"
  let ?q1 = "sparql_request demo_env (JStr (graph_sample_query ''urn:a'')) default_accept"
  let ?q2 = "sparql_request demo_env (JStr (metadataQuery ''urn:a'')) default_accept"
  let ?q3 = "sparql_request demo_env (JStr (ontologyQuery ''urn:a'')) default_accept"
  have 1: "URL_pathname demo_env ?u = Inr ''/repository/repo/graph/urn%3Aa''"
    by (simp add: demo_defs)
  have 2: "scanPath (str_split CHR ''/'' ''/repository/repo/graph/urn%3Aa'') no_address = Inr ?a"
    by code_simp
  have 3: "repoName ?a \<noteq> []" by simp
  have 4: "\<not> is_view_kind (resourceType ?a)" by (simp add: is_view_kind_def path_defs)
  have 5: "graphUri ?a \<noteq> []" by simp
  note gv = graph_view_absorbs_only_ontology_failure [OF 1 2 3 4 5]
  have a1: "executeSparqlQuery demo_env (start [reply [] ?r1, reply [] ?r2, server_error])
              (JStr (graph_sample_query (graphUri ?a))) default_accept =
            (Inr ?r1, \<lparr>requests = [?q1], remote = [reply [] ?r2, server_error]\<rparr>)"
    by (simp add: demo_defs executeSparqlQuery_def do_fetch_def)
  have a2: "executeSparqlQuery demo_env \<lparr>requests = [?q1], remote = [reply [] ?r2, server_error]\<rparr>
              (JStr (metadataQuery (graphUri ?a))) default_accept =
            (Inr ?r2, \<lparr>requests = [?q1, ?q2], remote = [server_error]\<rparr>)"
    by (simp add: demo_defs executeSparqlQuery_def do_fetch_def)
  have a3: "\<exists>e. executeSparqlQuery demo_env \<lparr>requests = [?q1, ?q2], remote = [server_error]\<rparr>
              (JStr (ontologyQuery (graphUri ?a))) default_accept =
            (Inl e, \<lparr>requests = [?q1, ?q2, ?q3], remote = []\<rparr>)"
    by (simp add: demo_defs executeSparqlQuery_def do_fetch_def)
  from gv [of "start [reply [] ?r1, reply [] ?r2, server_error]", THEN conjunct1] a1 a2 a3
  have "ReadResource demo_env (start [reply [] ?r1, reply [] ?r2, server_error]) ?u =
          (Inr (json_contents demo_env ?u
                  (GraphJson (bindings (results ?r1))
                             (case bindings (results ?r2) of [] \<Rightarrow> None | m # _ \<Rightarrow> Some m)
                             [])),
           \<lparr>requests = [?q1, ?q2, ?q3], remote = []\<rparr>)"
    by blast
  then have A: "fst (ReadResource demo_env (start [reply [] ?r1, reply [] ?r2, server_error]) ?u) =
     Inr (json_contents demo_env ?u
            (GraphJson [[(''subject'', iri ''urn:s'')]]
                       (Some [(''triples'', count_literal ''1'')]) []))"
    by (simp add: rows_def)
  have b1: "\<exists>e. executeSparqlQuery demo_env (start [server_error])
              (JStr (graph_sample_query (graphUri ?a))) default_accept =
            (Inl e, \<lparr>requests = [?q1], remote = []\<rparr>)"
    by (simp add: demo_defs executeSparqlQuery_def do_fetch_def)
  from gv [of "start [server_error]", THEN conjunct2, THEN conjunct1] b1
  have "\<exists>e. ReadResource demo_env (start [server_error]) ?u =
          (Inl e, \<lparr>requests = [?q1], remote = []\<rparr>)"
    by blast
  then have B: "\<exists>e. fst (ReadResource demo_env (start [server_error]) ?u) = Inl e"
    by auto
  have c1: "executeSparqlQuery demo_env (start [reply [] ?r1, server_error])
              (JStr (graph_sample_query (graphUri ?a))) default_accept =
            (Inr ?r1, \<lparr>requests = [?q1], remote = [server_error]\<rparr>)"
    by (simp add: demo_defs executeSparqlQuery_def do_fetch_def)
  have c2: "\<exists>e. executeSparqlQuery demo_env \<lparr>requests = [?q1], remote = [server_error]\<rparr>
              (JStr (metadataQuery (graphUri ?a))) default_accept =
            (Inl e, \<lparr>requests = [?q1, ?q2], remote = []\<rparr>)"
    by (simp add: demo_defs executeSparqlQuery_def do_fetch_def)
  from gv [of "start [reply [] ?r1, server_error]", THEN conjunct2, THEN conjunct2] c1 c2
  have "\<exists>e. ReadResource demo_env (start [reply [] ?r1, server_error]) ?u =
          (Inl e, \<lparr>requests = [?q1, ?q2], remote = []\<rparr>)"
    by blast
  then have C: "\<exists>e. fst (ReadResource demo_env (start [reply [] ?r1, server_error]) ?u) = Inl e"
    by auto
  show ?thesis by (intro conjI A B C)
qed

lemma scanPath_resourceType:
  "scanPath cs a0 = Inr a \<Longrightarrow>
   resourceType a =
     (if filter is_view_kind cs = [] then resourceType a0 else last (filter is_view_kind cs))"
proof (induction cs arbitrary: a0)
  case Nil
  then show ?case by simp
next
  case (Cons c rest)
  show ?case
  proof (cases "is_view_kind c")
    case True
    then have nr: "c \<noteq> REPOSITORY_PATH" "c \<noteq> GRAPH_PATH"
      by (auto simp add: is_view_kind_def path_defs)
    with True Cons.prems have "scanPath rest (a0\<lparr>resourceType := c\<rparr>) = Inr a"
      by (simp add: is_view_kind_def)
    from Cons.IH [OF this] True show ?thesis by simp
  next
    case False
    with Cons.prems consider
        (repo) "scanPath rest (a0\<lparr>repoName := hd rest\<rparr>) = Inr a"
      | (graph) g where "scanPath rest (a0\<lparr>graphUri := g\<rparr>) = Inr a"
      | (other) "scanPath rest a0 = Inr a"
      by (auto simp add: is_view_kind_def split: if_splits sum.splits)
    then show ?thesis
    proof cases
      case repo
      from Cons.IH [OF this] False show ?thesis by simp
    next
      case graph
      from Cons.IH [OF this] False show ?thesis by simp
    next
      case other
      from Cons.IH [OF this] False show ?thesis by simp
    qed
  qed
qed

text \<open>
  Claim C9, as stated: an address with a view-kind token and a graph marker with a graph
  identifier is served as the fixed view, the identifier ignored. The identifier is
  decoded while the path is scanned, before any view is chosen: with the segment \<open>%\<close>
  after the graph marker the read raises a URI error and sends no query, where the
  class list would have been served.
\<close>

theorem malformed_graph_segment_fails_read:
  "ReadResource demo_env (start [reply [] (rows [''class''] [])])
     ''graphdb://localhost:7200/repository/repo/graph/%/classes'' =
     (Inl (JsError URIError ''URI malformed''), start [reply [] (rows [''class''] [])]) \<and>
   fst (single_query_view demo_env (start [reply [] (rows [''class''] [])])
     ''graphdb://localhost:7200/repository/repo/graph/%/classes'' classes_query) =
     Inr (json_contents demo_env ''graphdb://localhost:7200/repository/repo/graph/%/classes''
            (ResultJson (rows [''class''] [])))"
  by (simp add: ReadResource_def demo_defs path_defs decodeURIComponent_def single_query_view_def
      executeSparqlQuery_def do_fetch_def)

text \<open>
  Claim C9, amended. When the path of the address scans without error (every segment
  after a graph marker decodes), gives a repository name and has a view-kind token, the
  read serves the fixed view named by the last such token, whatever graph identifier
  the path has: the graph view is not reached.
\<close>

theorem fixed_view_wins_over_graph:
  assumes "URL_pathname env u = Inr pathname"
    and "scanPath (str_split CHR ''/'' pathname) no_address = Inr a"
    and "repoName a \<noteq> []"
    and "filter is_view_kind (str_split CHR ''/'' pathname) \<noteq> []"
  shows "resourceType a = last (filter is_view_kind (str_split CHR ''/'' pathname)) \<and>
         ReadResource env st u =
           (if resourceType a = CLASS_LIST_PATH then single_query_view env st u classes_query
            else if resourceType a = PREDICATES_PATH then single_query_view env st u predicates_query
            else if resourceType a = STATS_PATH then statsView env st u
            else single_query_view env st u sample_query)"
proof -
  from scanPath_resourceType [OF assms(2)] assms(4)
  have rt: "resourceType a = last (filter is_view_kind (str_split CHR ''/'' pathname))" by simp
  have "last (filter is_view_kind (str_split CHR ''/'' pathname))
          \<in> set (filter is_view_kind (str_split CHR ''/'' pathname))"
    using assms(4) last_in_set by blast
  with rt have "is_view_kind (resourceType a)" by simp
  then have "resourceType a = CLASS_LIST_PATH \<or> resourceType a = PREDICATES_PATH \<or>
             resourceType a = STATS_PATH \<or> resourceType a = SAMPLE_DATA_PATH"
    by (auto simp add: is_view_kind_def)
  with assms(1-3) rt show ?thesis
    by (auto simp add: ReadResource_def)
qed

text \<open>The class list of the example repository, read through an address that names a graph.\<close>

theorem fixed_view_wins_over_graph_witness:
  "ReadResource demo_env (start [reply [] (rows [''class''] [])])
     ''graphdb://localhost:7200/repository/repo/graph/urn%3Aa/classes'' =
   single_query_view demo_env (start [reply [] (rows [''class''] [])])
     ''graphdb://localhost:7200/repository/repo/graph/urn%3Aa/classes'' classes_query"
proof -
  let ?u = "''graphdb://localhost:7200/repository/repo/graph/urn%3Aa/classes''"
  let ?a = "\<lparr>repoName = ''repo'', graphUri = ''urn:a'', resourceType = ''classes''\<rparr>"
  have 1: "URL_pathname demo_env ?u = Inr ''/repository/repo/graph/urn%3Aa/classes''"
    by (simp add: demo_defs)
  have 2: "scanPath (str_split CHR ''/'' ''/repository/repo/graph/urn%3Aa/classes'') no_address =
           Inr ?a"
    by code_simp
  have 3: "repoName ?a \<noteq> []" by simp
  have 4: "filter is_view_kind (str_split CHR ''/'' ''/repository/repo/graph/urn%3Aa/classes'') \<noteq> []"
    by (simp add: is_view_kind_def path_defs)
  from fixed_view_wins_over_graph [OF 1 2 3 4, of "start [reply [] (rows [''class''] [])]"]
  show ?thesis by (simp add: path_defs)
qed

text \<open>
  The two other conditions of the amended claim, on the example deployment: without a
  repository name the read fails before any view is chosen, and of two view-kind tokens
  the later one names the view that is served.
\<close>

lemma missing_repository_fails_read:
  "ReadResource demo_env (start [reply [] (rows [''class''] [])])
     ''graphdb://localhost:7200/graph/urn%3Aa/classes'' =
     (Inl (JsError Error ''Invalid resource URI: missing repository name''),
      start [reply [] (rows [''class''] [])])"
proof -
  have "scanPath (str_split CHR ''/'' ''/graph/urn%3Aa/classes'') no_address =
          Inr \<lparr>repoName = [], graphUri = ''urn:a'', resourceType = ''classes''\<rparr>"
    by code_simp
  then show ?thesis
    by (simp add: ReadResource_def demo_defs)
qed

lemma later_view_kind_token_wins:
  "ReadResource demo_env (start [reply [] (rows [''subject''] [])])
     ''graphdb://localhost:7200/repository/repo/classes/sample'' =
   single_query_view demo_env (start [reply [] (rows [''subject''] [])])
     ''graphdb://localhost:7200/repository/repo/classes/sample'' sample_query"
proof -
  have "scanPath (str_split CHR ''/'' ''/repository/repo/classes/sample'') no_address =
          Inr \<lparr>repoName = ''repo'', graphUri = [], resourceType = ''sample''\<rparr>"
    by code_simp
  then show ?thesis
    by (simp add: ReadResource_def demo_defs path_defs)
qed

end
